theory Spec2Isabelle
  imports Complex_Main "HOL-Library.Word" "HOL-Library.AList"
begin

unbundle bit_operations_syntax

section \<open>SHA-256, as used by \<open>hashJWT\<close>\<close>

text \<open>
  \<open>hashJWT\<close> calls Node's \<open>crypto.createHash('sha256').update(jwtToken).digest('hex')\<close>.
  The digest function belongs to the platform, not to the repository; it is written out here
  after FIPS 180-4 so that the fingerprint is a computable value. A token is the sequence of
  bytes that \<open>update\<close> hashes (the UTF-8 encoding of the JavaScript string), one \<open>char\<close>
  per byte.
\<close>

type_synonym word32 = "32 word"
type_synonym byte = "8 word"

definition K256 :: "word32 list" where
  "K256 =
    [0x428A2F98, 0x71374491, 0xB5C0FBCF, 0xE9B5DBA5, 0x3956C25B, 0x59F111F1, 0x923F82A4, 0xAB1C5ED5,
     0xD807AA98, 0x12835B01, 0x243185BE, 0x550C7DC3, 0x72BE5D74, 0x80DEB1FE, 0x9BDC06A7, 0xC19BF174,
     0xE49B69C1, 0xEFBE4786, 0x0FC19DC6, 0x240CA1CC, 0x2DE92C6F, 0x4A7484AA, 0x5CB0A9DC, 0x76F988DA,
     0x983E5152, 0xA831C66D, 0xB00327C8, 0xBF597FC7, 0xC6E00BF3, 0xD5A79147, 0x06CA6351, 0x14292967,
     0x27B70A85, 0x2E1B2138, 0x4D2C6DFC, 0x53380D13, 0x650A7354, 0x766A0ABB, 0x81C2C92E, 0x92722C85,
     0xA2BFE8A1, 0xA81A664B, 0xC24B8B70, 0xC76C51A3, 0xD192E819, 0xD6990624, 0xF40E3585, 0x106AA070,
     0x19A4C116, 0x1E376C08, 0x2748774C, 0x34B0BCB5, 0x391C0CB3, 0x4ED8AA4A, 0x5B9CCA4F, 0x682E6FF3,
     0x748F82EE, 0x78A5636F, 0x84C87814, 0x8CC70208, 0x90BEFFFA, 0xA4506CEB, 0xBEF9A3F7, 0xC67178F2]"

type_synonym hash_state =
  "word32 \<times> word32 \<times> word32 \<times> word32 \<times> word32 \<times> word32 \<times> word32 \<times> word32"

definition H256 :: hash_state where
  "H256 = (0x6A09E667, 0xBB67AE85, 0x3C6EF372, 0xA54FF53A,
           0x510E527F, 0x9B05688C, 0x1F83D9AB, 0x5BE0CD19)"

definition Ch :: "word32 \<Rightarrow> word32 \<Rightarrow> word32 \<Rightarrow> word32" where
  "Ch x y z = (x AND y) XOR (NOT x AND z)"

definition Maj :: "word32 \<Rightarrow> word32 \<Rightarrow> word32 \<Rightarrow> word32" where
  "Maj x y z = (x AND y) XOR (x AND z) XOR (y AND z)"

definition Sigma0 :: "word32 \<Rightarrow> word32" where
  "Sigma0 x = word_rotr 2 x XOR word_rotr 13 x XOR word_rotr 22 x"

definition Sigma1 :: "word32 \<Rightarrow> word32" where
  "Sigma1 x = word_rotr 6 x XOR word_rotr 11 x XOR word_rotr 25 x"

definition sigma0 :: "word32 \<Rightarrow> word32" where
  "sigma0 x = word_rotr 7 x XOR word_rotr 18 x XOR drop_bit 3 x"

definition sigma1 :: "word32 \<Rightarrow> word32" where
  "sigma1 x = word_rotr 17 x XOR word_rotr 19 x XOR drop_bit 10 x"

text \<open>Padding: the byte 0x80, zero bytes up to 56 modulo 64, the bit length on 8 bytes.\<close>

definition be_bytes :: "64 word \<Rightarrow> byte list" where
  "be_bytes n = map (\<lambda>i. ucast (drop_bit (8 * i) n)) (rev [0..<8])"

definition pad :: "byte list \<Rightarrow> byte list" where
  "pad bs = bs @ [0x80] @ replicate ((119 - length bs mod 64) mod 64) 0
               @ be_bytes (word_of_nat (8 * length bs))"

fun be_words :: "byte list \<Rightarrow> word32 list" where
  "be_words (a # b # c # d # bs) =
     (push_bit 24 (ucast a) OR push_bit 16 (ucast b) OR push_bit 8 (ucast c) OR ucast d)
       # be_words bs"
| "be_words _ = []"

fun blocks :: "word32 list \<Rightarrow> word32 list list" where
  "blocks [] = []"
| "blocks (w # ws) = take 16 (w # ws) # blocks (drop 16 (w # ws))"

text \<open>
  The message schedule: each further word is computed from the words 2, 7, 15 and 16 places
  before it. The schedule is kept newest first, so these are the places 1, 6, 14 and 15.
\<close>

primrec schedule :: "nat \<Rightarrow> word32 list \<Rightarrow> word32 list" where
  "schedule 0 ws = ws"
| "schedule (Suc n) ws =
     schedule n ((sigma1 (ws ! 1) + ws ! 6 + sigma0 (ws ! 14) + ws ! 15) # ws)"

definition round256 :: "hash_state \<Rightarrow> word32 \<times> word32 \<Rightarrow> hash_state" where
  "round256 s kw =
     (case s of (a, b, c, d, e, f, g, h) \<Rightarrow>
        (let t1 = h + Sigma1 e + Ch e f g + fst kw + snd kw;
             t2 = Sigma0 a + Maj a b c
         in (t1 + t2, a, b, c, d + t1, e, f, g)))"

definition add_state :: "hash_state \<Rightarrow> hash_state \<Rightarrow> hash_state" where
  "add_state s t =
     (case s of (a, b, c, d, e, f, g, h) \<Rightarrow>
      case t of (a', b', c', d', e', f', g', h') \<Rightarrow>
        (a + a', b + b', c + c', d + d', e + e', f + f', g + g', h + h'))"

definition compress :: "hash_state \<Rightarrow> word32 list \<Rightarrow> hash_state" where
  "compress s m = add_state s (foldl round256 s (zip K256 (rev (schedule 48 (rev m)))))"

definition sha256 :: "byte list \<Rightarrow> hash_state" where
  "sha256 bs = foldl compress H256 (blocks (be_words (pad bs)))"

text \<open>\<open>digest('hex')\<close>: two lowercase hexadecimal digits per byte, most significant first.\<close>

definition hex_digit :: "nat \<Rightarrow> char" where
  "hex_digit n = ''0123456789abcdef'' ! n"

definition hex32 :: "word32 \<Rightarrow> string" where
  "hex32 w = map (\<lambda>i. hex_digit (unat (drop_bit (4 * i) w AND 0xF))) (rev [0..<8])"

definition hex_digest :: "hash_state \<Rightarrow> string" where
  "hex_digest s =
     (case s of (a, b, c, d, e, f, g, h) \<Rightarrow>
        hex32 a @ hex32 b @ hex32 c @ hex32 d @ hex32 e @ hex32 f @ hex32 g @ hex32 h)"

section \<open>The fingerprint\<close>

definition hashJWT :: "string \<Rightarrow> string" where
  "hashJWT jwtToken = hex_digest (sha256 (map of_char jwtToken))"

section \<open>The Redis client\<close>

text \<open>
  The store behind \<open>this.client\<close> is an external service. Its state is modelled as the list
  of its keys, each holding a hash (a field list) and, when one was set, a time to live in
  seconds. The client also records the commands it was asked to send, in order, so that what
  an operation issues can be stated. Only the five client methods that the class calls are
  modelled. The connection itself never fails here; the server refuses a command only where
  said below. Time does not pass: \<open>now\<close> is the reading of the server's clock, in
  milliseconds.
\<close>

text \<open>
  A JavaScript number, as \<open>expiration\<close> is: a finite value (every double is a rational
  number), \<open>NaN\<close> or an infinity.
\<close>

datatype js_number = Num rat | NaN | PosInfinity | NegInfinity

text \<open>What is thrown: an \<open>Error\<close> of the class itself, or the error reply of the server,
  each with its message.\<close>

datatype error = Error string | ErrorReply string

type_synonym key = string

record entry =
  hash :: "(string \<times> string) list"
  ttl :: "int option"

datatype command =
    HSet key "(string \<times> string) list"
  | Expire key js_number
  | Exists key
  | Del "key list"
  | Keys string

record redis_client =
  db :: "(key \<times> entry) list"
  calls :: "command list"
  now :: int

text \<open>\<open>HSET\<close> creates the hash when the key is new and sets the given fields, keeping the
  other fields and the time to live of a key that exists.\<close>

definition hSet :: "key \<Rightarrow> (string \<times> string) list \<Rightarrow> redis_client \<Rightarrow> redis_client" where
  "hSet k fvs c =
     (let old = (case map_of (db c) k of None \<Rightarrow> \<lparr>hash = [], ttl = None\<rparr> | Some e \<Rightarrow> e)
      in c\<lparr>db := AList.update k (old\<lparr>hash := fold (\<lambda>(f, v). AList.update f v) fvs (hash old)\<rparr>) (db c),
            calls := calls c @ [HSet k fvs]\<rparr>)"

text \<open>
  \<open>EXPIRE key seconds\<close>. The client sends the number as JavaScript prints it, and the
  server reads a signed 64-bit integer from that text: a number that is not an integer, or not
  in that range, is refused. So is a time that overflows 64 bits once it is turned into
  milliseconds and added to the clock. Otherwise the command sets the time to live of a key
  that exists, or deletes the key when the time is not positive, and answers whether the key
  exists.
\<close>

definition LLONG_MAX :: int where
  "LLONG_MAX = 2 ^ 63 - 1"

definition long_long :: "js_number \<Rightarrow> int option" where
  "long_long x =
     (case x of
        Num r \<Rightarrow> if of_int \<lfloor>r\<rfloor> = r \<and> - LLONG_MAX - 1 \<le> \<lfloor>r\<rfloor> \<and> \<lfloor>r\<rfloor> \<le> LLONG_MAX
                 then Some \<lfloor>r\<rfloor> else None
      | _ \<Rightarrow> None)"

definition expire :: "key \<Rightarrow> js_number \<Rightarrow> redis_client \<Rightarrow> (error + bool) \<times> redis_client" where
  "expire k seconds c =
     (let c' = c\<lparr>calls := calls c @ [Expire k seconds]\<rparr>
      in case long_long seconds of
           None \<Rightarrow> (Inl (ErrorReply ''ERR value is not an integer or out of range''), c')
         | Some n \<Rightarrow>
             if LLONG_MAX div 1000 < n \<or> n < - (LLONG_MAX div 1000)
                \<or> LLONG_MAX - now c < n * 1000
             then (Inl (ErrorReply ''ERR invalid expire time in 'expire' command''), c')
             else (case map_of (db c) k of
                     None \<Rightarrow> (Inr False, c')
                   | Some e \<Rightarrow>
                       (Inr True,
                        c'\<lparr>db := (if n \<le> 0 then AList.delete k (db c)
                                  else AList.update k (e\<lparr>ttl := Some n\<rparr>) (db c))\<rparr>)))"

text \<open>\<open>EXISTS\<close> answers with the number of the given keys that exist: 0 or 1 for one key.\<close>

definition exists :: "key \<Rightarrow> redis_client \<Rightarrow> nat \<times> redis_client" where
  "exists k c =
     (if map_of (db c) k = None then 0 else 1, c\<lparr>calls := calls c @ [Exists k]\<rparr>)"

definition del :: "key list \<Rightarrow> redis_client \<Rightarrow> redis_client" where
  "del ks c =
     c\<lparr>db := filter (\<lambda>(k, e). k \<notin> set ks) (db c), calls := calls c @ [Del ks]\<rparr>"

subsection \<open>Glob patterns of \<open>KEYS\<close>\<close>

text \<open>
  \<open>KEYS pattern\<close> walks the whole keyspace in one blocking command and returns every key that
  matches the glob-style pattern: \<open>*\<close> stands for any run of characters, \<open>?\<close> for one
  character, \<open>[...]\<close> for a class of characters (negated by a leading \<open>^\<close>, with ranges
  \<open>a-z\<close>), and a backslash takes the next character literally.
\<close>

fun class_match :: "string \<Rightarrow> char \<Rightarrow> bool \<Rightarrow> bool \<times> string" where
  "class_match [] c m = (m, [])"
| "class_match (p # ps) c m =
     (if p = CHR 0x5C \<and> ps \<noteq> [] then class_match (tl ps) c (m \<or> hd ps = c)
      else if p = CHR '']'' then (m, ps)
      else if 2 \<le> length ps \<and> hd ps = CHR ''-''
        then class_match (drop 2 ps) c
               (m \<or> (min (of_char p) (of_char (ps ! 1)) \<le> (of_char c :: nat)
                     \<and> (of_char c :: nat) \<le> max (of_char p) (of_char (ps ! 1))))
      else class_match ps c (m \<or> p = c))"

function glob_match :: "string \<Rightarrow> string \<Rightarrow> bool" where
  "glob_match [] s = (s = [])"
| "glob_match (p # ps) [] = (if p = CHR ''*'' then glob_match ps [] else False)"
| "glob_match (p # ps) (c # cs) =
     (if p = CHR ''*'' then (if glob_match ps (c # cs) then True else glob_match (p # ps) cs)
      else if p = CHR ''?'' then glob_match ps cs
      else if p = CHR ''['' then
        (let neg = (ps \<noteq> [] \<and> hd ps = CHR ''^'');
             r = class_match (if neg then tl ps else ps) c False
         in if fst r = neg then False else glob_match (snd r) cs)
      else if p = CHR 0x5C \<and> ps \<noteq> [] then
        (if hd ps = c then glob_match (tl ps) cs else False)
      else if p = c then glob_match ps cs else False)"
  by pat_completeness auto
termination
proof (relation "measure (\<lambda>(p, s). length p + length s)")
  have rest: "length (snd (class_match q d m)) \<le> length q" for q d m
    by (induction q d m rule: class_match.induct) (auto simp: le_SucI)
  fix p ps c cs neg r
  assume "neg = (ps \<noteq> [] \<and> hd ps = CHR ''^'')"
    and "r = class_match (if neg then tl ps else ps) c False"
  then have "length (snd r) \<le> length ps"
    using rest [of "if neg then tl ps else ps" c False]
    by (auto split: if_splits intro: order_trans)
  then show "((snd r, cs), p # ps, c # cs) \<in> measure (\<lambda>(p, s). length p + length s)"
    by simp
qed auto

definition keys :: "string \<Rightarrow> redis_client \<Rightarrow> key list \<times> redis_client" where
  "keys pattern c =
     (filter (glob_match pattern) (map fst (db c)), c\<lparr>calls := calls c @ [Keys pattern]\<rparr>)"

text \<open>The characters that a pattern does not take literally.\<close>

definition glob_special :: "char \<Rightarrow> bool" where
  "glob_special c \<longleftrightarrow> c = CHR ''*'' \<or> c = CHR ''?'' \<or> c = CHR ''['' \<or> c = CHR 0x5C"

section \<open>The class \<open>RedisJWTHashStore\<close>\<close>

record RedisJWTHashStore =
  client :: redis_client
  prefixValid :: string
  prefixBlacklist :: string

text \<open>The constructor: an option left out takes its default.\<close>

definition constructor :: "redis_client \<Rightarrow> string option \<Rightarrow> string option \<Rightarrow> RedisJWTHashStore" where
  "constructor c pv pb =
     \<lparr>client = c,
      prefixValid = (case pv of None \<Rightarrow> ''valid-jwt'' | Some p \<Rightarrow> p),
      prefixBlacklist = (case pb of None \<Rightarrow> ''blacklisted-jwt'' | Some p \<Rightarrow> p)\<rparr>"

text \<open>The errors that \<open>validateJWT\<close> throws, with their messages.\<close>

definition Blacklisted :: error where
  "Blacklisted = Error ''JWT is blacklisted''"

definition NotFound :: error where
  "NotFound = Error ''JWT does not exist in valid list''"

text \<open>
  \<open>expiration\<close> is a number, or \<open>None\<close> when the argument is left out (\<open>undefined\<close>).
  \<open>expiration && expiration > 0\<close> holds when it is given, is truthy (neither 0 nor
  \<open>NaN\<close>) and is greater than 0.
\<close>

definition truthy :: "js_number \<Rightarrow> bool" where
  "truthy x = (case x of Num r \<Rightarrow> r \<noteq> 0 | NaN \<Rightarrow> False | _ \<Rightarrow> True)"

definition greater_zero :: "js_number \<Rightarrow> bool" where
  "greater_zero x = (case x of Num r \<Rightarrow> 0 < r | PosInfinity \<Rightarrow> True | _ \<Rightarrow> False)"

definition positive :: "js_number option \<Rightarrow> bool" where
  "positive expiration =
     (case expiration of None \<Rightarrow> False | Some x \<Rightarrow> truthy x \<and> greater_zero x)"

text \<open>
  The two store operations return nothing; when an awaited command is refused they throw its
  error, after what they had already written. The result is the error or \<open>()\<close>, with the
  store as the call leaves it.
\<close>

definition storeValidJWT ::
  "RedisJWTHashStore \<Rightarrow> string \<Rightarrow> string \<Rightarrow> string \<Rightarrow> js_number option
     \<Rightarrow> (error + unit) \<times> RedisJWTHashStore" where
  "storeValidJWT this keyName rawJWT locale expiration =
     (let jwtHash = hashJWT rawJWT;
          redisKey = prefixValid this @ '':'' @ keyName @ '':'' @ jwtHash;
          c = hSet redisKey
                [(''keyName'', keyName), (''jwtHash'', jwtHash), (''locale'', locale)]
                (client this)
      in if positive expiration
         then (case expire redisKey (the expiration) c of
                 (Inl err, c') \<Rightarrow> (Inl err, this\<lparr>client := c'\<rparr>)
               | (Inr _, c') \<Rightarrow> (Inr (), this\<lparr>client := c'\<rparr>))
         else (Inr (), this\<lparr>client := c\<rparr>))"

definition storeBlacklistedJWT ::
  "RedisJWTHashStore \<Rightarrow> string \<Rightarrow> string \<Rightarrow> string \<Rightarrow> js_number option
     \<Rightarrow> (error + unit) \<times> RedisJWTHashStore" where
  "storeBlacklistedJWT this keyName rawJWT locale expiration =
     (let jwtHash = hashJWT rawJWT;
          redisKey = prefixBlacklist this @ '':'' @ keyName @ '':'' @ jwtHash;
          c = hSet redisKey
                [(''keyName'', keyName), (''jwtHash'', jwtHash), (''locale'', locale)]
                (client this)
      in if positive expiration
         then (case expire redisKey (the expiration) c of
                 (Inl err, c') \<Rightarrow> (Inl err, this\<lparr>client := c'\<rparr>)
               | (Inr _, c') \<Rightarrow> (Inr (), this\<lparr>client := c'\<rparr>))
         else (Inr (), this\<lparr>client := c\<rparr>))"

definition validateJWT ::
  "RedisJWTHashStore \<Rightarrow> string \<Rightarrow> string \<Rightarrow> (error + bool) \<times> RedisJWTHashStore" where
  "validateJWT this keyName rawJWT =
     (let jwtHash = hashJWT rawJWT;
          blacklistedKey = prefixBlacklist this @ '':'' @ keyName @ '':'' @ jwtHash;
          validKey = prefixValid this @ '':'' @ keyName @ '':'' @ jwtHash;
          (blacklistedExists, c1) = exists blacklistedKey (client this)
      in if blacklistedExists \<noteq> 0 then (Inl Blacklisted, this\<lparr>client := c1\<rparr>)
         else
           (let (validExists, c2) = exists validKey c1
            in if validExists = 0 then (Inl NotFound, this\<lparr>client := c2\<rparr>)
               else (Inr True, this\<lparr>client := c2\<rparr>)))"

definition deleteRecord ::
  "RedisJWTHashStore \<Rightarrow> string \<Rightarrow> string \<Rightarrow> string \<Rightarrow> RedisJWTHashStore" where
  "deleteRecord this prefix keyName rawJWT =
     (let jwtHash = hashJWT rawJWT;
          redisKey = prefix @ '':'' @ keyName @ '':'' @ jwtHash
      in this\<lparr>client := del [redisKey] (client this)\<rparr>)"

definition deleteAllByKeyName ::
  "RedisJWTHashStore \<Rightarrow> string \<Rightarrow> string \<Rightarrow> RedisJWTHashStore" where
  "deleteAllByKeyName this prefix keyName =
     (let pattern = prefix @ '':'' @ keyName @ '':*'';
          (ks, c) = keys pattern (client this)
      in if length ks > 0 then this\<lparr>client := del ks c\<rparr> else this\<lparr>client := c\<rparr>)"

section \<open>What the operations have in common\<close>

text \<open>
  The key of a record and the fields of a record, as the template literals and the object
  literals of the class compose them.
\<close>

abbreviation record_key :: "string \<Rightarrow> string \<Rightarrow> string \<Rightarrow> key" where
  "record_key prefix keyName rawJWT \<equiv> prefix @ '':'' @ keyName @ '':'' @ hashJWT rawJWT"

abbreviation record_fields :: "string \<Rightarrow> string \<Rightarrow> string \<Rightarrow> (string \<times> string) list" where
  "record_fields keyName rawJWT locale \<equiv>
     [(''keyName'', keyName), (''jwtHash'', hashJWT rawJWT), (''locale'', locale)]"

text \<open>
  The contract of recording as the specification words it, for a category prefix: compute
  the fingerprint, compose the key under the category, write the fields identifier,
  fingerprint and context to that key, and set the expiration when the time to live is a
  positive number; a failure of the store is passed on.
\<close>

definition record_under ::
  "string \<Rightarrow> string \<Rightarrow> string \<Rightarrow> string \<Rightarrow> js_number option \<Rightarrow> redis_client
     \<Rightarrow> (error + unit) \<times> redis_client" where
  "record_under prefix identifier rawToken context ttlSeconds c =
     (let written = hSet (record_key prefix identifier rawToken)
                      (record_fields identifier rawToken context) c
      in case ttlSeconds of
           Some (Num r) \<Rightarrow>
             if 0 < r
             then (case expire (record_key prefix identifier rawToken) (Num r) written of
                     (failure, c') \<Rightarrow> (map_sum id (\<lambda>_. ()) failure, c'))
             else (Inr (), written)
         | Some PosInfinity \<Rightarrow>
             (case expire (record_key prefix identifier rawToken) PosInfinity written of
                (failure, c') \<Rightarrow> (map_sum id (\<lambda>_. ()) failure, c'))
         | _ \<Rightarrow> (Inr (), written))"

text \<open>The number of seconds that the server takes from a number, when it accepts it.\<close>

definition accepted :: "redis_client \<Rightarrow> js_number \<Rightarrow> int option" where
  "accepted c x =
     (case long_long x of
        None \<Rightarrow> None
      | Some n \<Rightarrow> if LLONG_MAX div 1000 < n \<or> n < - (LLONG_MAX div 1000)
                     \<or> LLONG_MAX - now c < n * 1000
                  then None else Some n)"

text \<open>The entry that a key holds once a record was written to it.\<close>

definition written_entry ::
  "redis_client \<Rightarrow> key \<Rightarrow> (string \<times> string) list \<Rightarrow> js_number option \<Rightarrow> entry" where
  "written_entry c k fvs ttlSeconds =
     (let old = (case map_of (db c) k of None \<Rightarrow> \<lparr>hash = [], ttl = None\<rparr> | Some e \<Rightarrow> e)
      in \<lparr>hash = fold (\<lambda>(f, v). AList.update f v) fvs (hash old),
          ttl = (if positive ttlSeconds \<and> accepted c (the ttlSeconds) \<noteq> None
                 then accepted c (the ttlSeconds) else ttl old)\<rparr>)"

text \<open>A prefix without the delimiter and without pattern characters.\<close>

definition plain_prefix :: "string \<Rightarrow> bool" where
  "plain_prefix p = list_all (\<lambda>c. \<not> glob_special c \<and> c \<noteq> CHR '':'') p"

section \<open>The fingerprint as the code computes it\<close>

text \<open>
  \<open>hashJWT\<close> makes a \<open>Hash\<close> object, feeds it the token and asks it for the digest: the
  object is created on the heap and changed by \<open>update\<close> and \<open>digest\<close>. Here the heap is
  the list of the objects there are, the \<open>Hash\<close> objects and the stores, and a reference
  is a place in it. A \<open>Hash\<close> object holds the bytes written to it and whether its digest
  was taken; after that it takes no more calls.
\<close>

record hash_object =
  written :: "byte list"
  finalized :: bool

datatype heap_object = HashObject hash_object | StoreObject RedisJWTHashStore

type_synonym heap = "heap_object list"

definition createHash_sha256 :: "heap \<Rightarrow> nat \<times> heap" where
  "createHash_sha256 h = (length h, h @ [HashObject \<lparr>written = [], finalized = False\<rparr>])"

definition update :: "nat \<Rightarrow> string \<Rightarrow> heap \<Rightarrow> (error + nat) \<times> heap" where
  "update a data h =
     (if a < length h
      then (case h ! a of
              HashObject ob \<Rightarrow>
                if finalized ob then (Inl (Error ''Digest already called''), h)
                else (Inr a, h[a := HashObject (ob\<lparr>written := written ob @ map of_char data\<rparr>)])
            | StoreObject s \<Rightarrow> (Inl (Error ''not a Hash object''), h))
      else (Inl (Error ''not a Hash object''), h))"

definition digest_hex :: "nat \<Rightarrow> heap \<Rightarrow> (error + string) \<times> heap" where
  "digest_hex a h =
     (if a < length h
      then (case h ! a of
              HashObject ob \<Rightarrow>
                if finalized ob then (Inl (Error ''Digest already called''), h)
                else (Inr (hex_digest (sha256 (written ob))),
                      h[a := HashObject (ob\<lparr>finalized := True\<rparr>)])
            | StoreObject s \<Rightarrow> (Inl (Error ''not a Hash object''), h))
      else (Inl (Error ''not a Hash object''), h))"

definition hashJWT_on_heap :: "string \<Rightarrow> heap \<Rightarrow> (error + string) \<times> heap" where
  "hashJWT_on_heap jwtToken h =
     (case createHash_sha256 h of
        (a, h1) \<Rightarrow>
          (case update a jwtToken h1 of
             (Inl err, h2) \<Rightarrow> (Inl err, h2)
           | (Inr a', h2) \<Rightarrow> digest_hex a' h2))"

section \<open>Stores to run the operations on\<close>

text \<open>
  A store made with the default options; one made with the same prefix for both categories;
  one whose valid prefix is its blacklist prefix followed by the delimiter and a name; and one
  whose blacklist prefix is a pattern character. Each is on an empty database.
\<close>

definition empty_client :: redis_client where
  "empty_client = \<lparr>db = [], calls = [], now = 1793690000000\<rparr>"

definition store0 :: RedisJWTHashStore where
  "store0 = constructor empty_client None None"

definition same_prefix_store :: RedisJWTHashStore where
  "same_prefix_store = constructor empty_client (Some ''jwt'') (Some ''jwt'')"

definition nested_prefix_store :: RedisJWTHashStore where
  "nested_prefix_store = constructor empty_client (Some ''a:u'') (Some ''a'')"

definition star_prefix_store :: RedisJWTHashStore where
  "star_prefix_store = constructor empty_client None (Some ''*'')"

section \<open>Properties of the fingerprint\<close>

lemma length_hex32: "length (hex32 w) = 8"
  by (simp add: hex32_def)

lemma length_hex_digest: "length (hex_digest s) = 64"
  by (simp add: hex_digest_def length_hex32 split: prod.splits)

lemma length_hashJWT: "length (hashJWT t) = 64"
  by (simp add: hashJWT_def length_hex_digest)

lemma nibble_bound: "unat (w AND (0xF :: word32)) < 16"
proof -
  have "unat (w AND 0xF) \<le> unat (0xF :: word32)"
    by (rule word_and_le1 [THEN word_le_nat_alt [THEN iffD1]])
  then show ?thesis by simp
qed

lemma hex_digit_lower: "n < 16 \<Longrightarrow> hex_digit n \<in> set ''0123456789abcdef''"
  unfolding hex_digit_def by (rule nth_mem) simp

lemma set_hex32: "set (hex32 w) \<subseteq> set ''0123456789abcdef''"
  unfolding hex32_def using hex_digit_lower [OF nibble_bound] by (auto simp del: list.set)

lemma set_hex_digest: "set (hex_digest s) \<subseteq> set ''0123456789abcdef''"
proof -
  obtain a b c d e f g h where s: "s = (a, b, c, d, e, f, g, h)"
    by (cases s) auto
  show ?thesis
    unfolding s hex_digest_def prod.case set_append
    by (intro Un_least set_hex32)
qed

lemma set_hashJWT: "set (hashJWT t) \<subseteq> set ''0123456789abcdef''"
  by (simp add: hashJWT_def set_hex_digest del: list.set)

text \<open>Two test vectors of FIPS 180-4, computed by the model.\<close>

lemma hashJWT_empty:
  "hashJWT [] = ''e3b0c44298fc1c149afbf4c8996fb92427ae41e4649b934ca495991b7852b855''"
  by code_simp

lemma hashJWT_abc:
  "hashJWT ''abc'' = ''ba7816bf8f01cfea414140de5dae2223b00361a396177a9cb410ff61f20015ad''"
  by code_simp

text \<open>Keys of one identifier under two prefixes are equal only when the prefixes are.\<close>

lemma record_key_eq_iff:
  "record_key p k t = record_key q k t' \<longleftrightarrow> p = q \<and> hashJWT t = hashJWT t'"
proof -
  have "(p @ '':'' @ k @ '':'') @ hashJWT t = (q @ '':'' @ k @ '':'') @ hashJWT t'
          \<longleftrightarrow> p @ '':'' @ k @ '':'' = q @ '':'' @ k @ '':'' \<and> hashJWT t = hashJWT t'"
    by (rule append_eq_append_conv) (simp add: length_hashJWT)
  then show ?thesis by simp
qed

text \<open>The fingerprints of two tokens used below are different.\<close>

lemma hashJWT_tok_A_B: "hashJWT ''tok-A'' \<noteq> hashJWT ''tok-B''"
  by code_simp

text \<open>
  On every heap the three calls of \<open>hashJWT\<close> succeed, return the digest of the token and
  leave one more object on the heap, the \<open>Hash\<close> object they made.
\<close>

lemma hashJWT_on_heap_result: "fst (hashJWT_on_heap T h) = Inr (hashJWT T)"
  by (simp add: hashJWT_on_heap_def createHash_sha256_def update_def digest_hex_def hashJWT_def)

lemma hashJWT_on_heap_heap:
  "snd (hashJWT_on_heap T h) = h @ [HashObject \<lparr>written = map of_char T, finalized = True\<rparr>]"
  by (simp add: hashJWT_on_heap_def createHash_sha256_def update_def digest_hex_def)

section \<open>Properties of the client\<close>

lemma positive_iff:
  "positive e \<longleftrightarrow> (\<exists>r. e = Some (Num r) \<and> 0 < r) \<or> e = Some PosInfinity"
  by (auto simp: positive_def truthy_def greater_zero_def split: option.splits js_number.splits)

lemma long_long_Some: "long_long x = Some n \<Longrightarrow> x = Num (of_int n)"
  by (auto simp: long_long_def split: js_number.splits if_splits)

lemma accepted_Some: "accepted c x = Some n \<Longrightarrow> x = Num (of_int n)"
  by (auto simp: accepted_def dest: long_long_Some split: option.splits if_splits)

lemma accepted_positive: "positive (Some x) \<Longrightarrow> accepted c x = Some n \<Longrightarrow> 0 < n"
  by (auto simp: positive_iff dest!: accepted_Some)

lemma accepted_int:
  "- (LLONG_MAX div 1000) \<le> n \<Longrightarrow> n \<le> LLONG_MAX div 1000 \<Longrightarrow> n * 1000 \<le> LLONG_MAX - now c \<Longrightarrow>
     accepted c (Num (of_int n)) = Some n"
  by (auto simp: accepted_def long_long_def LLONG_MAX_def)

lemma calls_hSet: "calls (hSet k fvs c) = calls c @ [HSet k fvs]"
  by (simp add: hSet_def Let_def)

lemma now_hSet: "now (hSet k fvs c) = now c"
  by (simp add: hSet_def Let_def)

lemma accepted_hSet: "accepted (hSet k fvs c) x = accepted c x"
  by (simp add: accepted_def now_hSet split: option.splits)

lemma map_of_hSet:
  "map_of (db (hSet k fvs c)) k' =
     (if k' = k then Some (written_entry c k fvs None) else map_of (db c) k')"
  by (simp add: hSet_def Let_def update_conv' written_entry_def positive_def
           split: option.splits)

lemma keys_hSet:
  "map fst (db (hSet k fvs c)) =
     (if k \<in> set (map fst (db c)) then map fst (db c) else map fst (db c) @ [k])"
  by (simp add: hSet_def Let_def update_keys)

lemma calls_expire: "calls (snd (expire k x c)) = calls c @ [Expire k x]"
  by (simp add: expire_def Let_def split: option.splits)

lemma fst_expire:
  "fst (expire k x c) =
     (case accepted c x of
        None \<Rightarrow> Inl (ErrorReply (if long_long x = None
                                  then ''ERR value is not an integer or out of range''
                                  else ''ERR invalid expire time in 'expire' command''))
      | Some n \<Rightarrow> Inr (map_of (db c) k \<noteq> None))"
  by (auto simp: expire_def accepted_def Let_def split: option.splits)

lemma map_of_expire:
  "map_of (db (snd (expire k x c))) k' =
     (case accepted c x of
        None \<Rightarrow> map_of (db c) k'
      | Some n \<Rightarrow> if k' = k
                  then (if n \<le> 0 then None
                        else map_option (\<lambda>e. e\<lparr>ttl := Some n\<rparr>) (map_of (db c) k))
                  else map_of (db c) k')"
  by (auto simp: expire_def accepted_def Let_def update_conv' delete_conv' split: option.splits)

lemma keys_expire:
  "accepted c x = None \<or> (\<exists>n. accepted c x = Some n \<and> 0 < n) \<Longrightarrow>
     map fst (db (snd (expire k x c))) = map fst (db c)"
  by (auto simp: expire_def accepted_def Let_def update_keys map_of_eq_None_iff [symmetric]
           split: option.splits)

lemma calls_record_under:
  "calls (snd (record_under p k t l e c)) =
     calls c @ HSet (record_key p k t) (record_fields k t l)
       # (if positive e then [Expire (record_key p k t) (the e)] else [])"
  by (auto simp: record_under_def Let_def calls_hSet calls_expire positive_iff
           split: option.splits js_number.splits prod.splits
           dest: arg_cong [where f = "\<lambda>p. calls (snd p)"])

lemma accepted_Some_bounds:
  "accepted c x = Some n \<Longrightarrow>
     x = Num (of_int n) \<and> - (LLONG_MAX div 1000) \<le> n \<and> n \<le> LLONG_MAX div 1000
     \<and> n * 1000 \<le> LLONG_MAX - now c"
  by (auto simp: accepted_def dest: long_long_Some split: option.splits if_splits)

lemma store0_simps:
  "prefixValid store0 = ''valid-jwt''" "prefixBlacklist store0 = ''blacklisted-jwt''"
  "db (client store0) = []" "calls (client store0) = []" "now (client store0) = 1793690000000"
  by (simp_all add: store0_def constructor_def empty_client_def)

lemma positive_3600: "positive (Some (Num 3600))"
  by (simp add: positive_iff)

lemma refused_unless_integer_in_range:
  "positive e \<Longrightarrow>
   \<not> (\<exists>n. e = Some (Num (of_int n)) \<and> n \<le> LLONG_MAX div 1000 \<and> n * 1000 \<le> LLONG_MAX - now c) \<Longrightarrow>
   accepted c (the e) = None"
proof (rule ccontr)
  assume p: "positive e"
    and no: "\<not> (\<exists>n. e = Some (Num (of_int n)) \<and> n \<le> LLONG_MAX div 1000
                  \<and> n * 1000 \<le> LLONG_MAX - now c)"
    and "accepted c (the e) \<noteq> None"
  then obtain n where "accepted c (the e) = Some n" by auto
  from accepted_Some_bounds [OF this] p no show False
    by (auto simp: positive_iff)
qed

section \<open>Properties of recording and of validation\<close>

lemma record_under_expire:
  "record_under p k t l e c =
     (if positive e
      then (map_sum id (\<lambda>_. ()) (fst (expire (record_key p k t) (the e)
                                          (hSet (record_key p k t) (record_fields k t l) c))),
            snd (expire (record_key p k t) (the e)
                   (hSet (record_key p k t) (record_fields k t l) c)))
      else (Inr (), hSet (record_key p k t) (record_fields k t l) c))"
  by (auto simp: record_under_def Let_def positive_iff
           split: option.splits js_number.splits prod.splits)

lemma map_of_record_under:
  "map_of (db (snd (record_under p k t l e c))) k' =
     (if k' = record_key p k t
      then Some (written_entry c (record_key p k t) (record_fields k t l) e)
      else map_of (db c) k')"
proof (cases "positive e")
  case False
  then show ?thesis
    by (simp add: record_under_expire map_of_hSet written_entry_def positive_def)
next
  case True
  then obtain x where e: "e = Some x" and px: "positive (Some x)"
    by (auto simp: positive_iff)
  show ?thesis
  proof (cases "accepted c x")
    case None
    with True e show ?thesis
      by (simp add: record_under_expire map_of_expire accepted_hSet map_of_hSet
            written_entry_def positive_def)
  next
    case (Some n)
    with accepted_positive [OF px Some] True e show ?thesis
      by (simp add: record_under_expire map_of_expire accepted_hSet map_of_hSet
            written_entry_def positive_def Let_def)
  qed
qed

lemma fst_record_under:
  "fst (record_under p k t l e c) =
     (if positive e \<and> accepted c (the e) = None
      then Inl (ErrorReply (if long_long (the e) = None
                            then ''ERR value is not an integer or out of range''
                            else ''ERR invalid expire time in 'expire' command''))
      else Inr ())"
  by (simp add: record_under_expire fst_expire accepted_hSet split: option.splits)

lemma keys_record_under:
  "map fst (db (snd (record_under p k t l e c))) =
     (if record_key p k t \<in> set (map fst (db c)) then map fst (db c)
      else map fst (db c) @ [record_key p k t])"
proof (cases "positive e")
  case False
  then show ?thesis
    by (simp add: record_under_expire keys_hSet)
next
  case True
  then obtain x where e: "e = Some x" and px: "positive (Some x)"
    by (auto simp: positive_iff)
  have "accepted (hSet (record_key p k t) (record_fields k t l) c) x = None
        \<or> (\<exists>n. accepted (hSet (record_key p k t) (record_fields k t l) c) x = Some n \<and> 0 < n)"
    using accepted_positive [OF px]
    by (cases "accepted (hSet (record_key p k t) (record_fields k t l) c) x") auto
  from keys_expire [OF this] True e show ?thesis
    by (simp add: record_under_expire keys_hSet)
qed

lemma storeValidJWT_record_under:
  "storeValidJWT this k t l e =
     (fst (record_under (prefixValid this) k t l e (client this)),
      this\<lparr>client := snd (record_under (prefixValid this) k t l e (client this))\<rparr>)"
  by (auto simp: storeValidJWT_def record_under_expire Let_def split: prod.splits sum.splits)

lemma storeBlacklistedJWT_record_under:
  "storeBlacklistedJWT this k t l e =
     (fst (record_under (prefixBlacklist this) k t l e (client this)),
      this\<lparr>client := snd (record_under (prefixBlacklist this) k t l e (client this))\<rparr>)"
  by (auto simp: storeBlacklistedJWT_def record_under_expire Let_def split: prod.splits sum.splits)

lemma validateJWT_result:
  "fst (validateJWT this k t) =
     (if map_of (db (client this)) (record_key (prefixBlacklist this) k t) \<noteq> None
      then Inl Blacklisted
      else if map_of (db (client this)) (record_key (prefixValid this) k t) = None
      then Inl NotFound else Inr True)"
  by (simp add: validateJWT_def exists_def Let_def)

lemma validateJWT_calls:
  "calls (client (snd (validateJWT this k t))) =
     calls (client this) @ Exists (record_key (prefixBlacklist this) k t)
       # (if map_of (db (client this)) (record_key (prefixBlacklist this) k t) \<noteq> None then []
          else [Exists (record_key (prefixValid this) k t)])"
  by (simp add: validateJWT_def exists_def Let_def)

lemma validateJWT_db: "db (client (snd (validateJWT this k t))) = db (client this)"
  by (simp add: validateJWT_def exists_def Let_def)

lemma hash_written_entry:
  "map_of (hash (written_entry c key (record_fields k t l) e)) ''keyName'' = Some k
   \<and> map_of (hash (written_entry c key (record_fields k t l) e)) ''jwtHash'' = Some (hashJWT t)
   \<and> map_of (hash (written_entry c key (record_fields k t l) e)) ''locale'' = Some l"
  by (simp add: written_entry_def Let_def update_conv')

lemma hash_written_entry_fresh:
  "map_of (db c) key = None \<Longrightarrow>
     hash (written_entry c key (record_fields k t l) e) = record_fields k t l"
  by (simp add: written_entry_def)

lemma ttl_written_entry:
  "ttl (written_entry c key fvs e) =
     (if positive e \<and> accepted c (the e) \<noteq> None then accepted c (the e)
      else case map_of (db c) key of None \<Rightarrow> None | Some old \<Rightarrow> ttl old)"
  by (auto simp: written_entry_def Let_def split: option.splits)

section \<open>Properties of patterns and of bulk deletion\<close>

lemma glob_match_star: "glob_match ''*'' s"
  by (induction s) simp_all

lemma glob_match_literal:
  "list_all (\<lambda>c. \<not> glob_special c) xs \<Longrightarrow> glob_match (xs @ p) (xs @ s) = glob_match p s"
  by (induction xs) (simp_all add: glob_special_def)

lemma glob_match_prefix:
  "list_all (\<lambda>c. \<not> glob_special c) xs \<Longrightarrow> glob_match (xs @ ''*'') (xs @ s)"
  by (simp add: glob_match_literal glob_match_star)

lemma glob_match_starts:
  "list_all (\<lambda>c. \<not> glob_special c) xs \<Longrightarrow> glob_match (xs @ p) s \<Longrightarrow> \<exists>r. s = xs @ r"
proof (induction xs arbitrary: s)
  case Nil
  then show ?case by simp
next
  case (Cons x xs)
  then show ?case
    by (cases s) (auto simp: glob_special_def split: if_splits)
qed

lemma first_delimiter:
  "c \<notin> set a \<Longrightarrow> c \<notin> set b \<Longrightarrow> a @ c # x = b @ c # y \<Longrightarrow> a = b"
proof (induction a arbitrary: b)
  case Nil
  then show ?case by (cases b) auto
next
  case (Cons d a)
  then show ?case by (cases b) auto
qed

lemma other_category_not_matched:
  assumes "plain_prefix p" and "plain_prefix q" and "p \<noteq> q"
  shows "\<not> glob_match (p @ '':'' @ J @ '':*'') (q @ '':'' @ I @ '':'' @ h)"
proof
  assume m: "glob_match (p @ '':'' @ J @ '':*'') (q @ '':'' @ I @ '':'' @ h)"
  have "list_all (\<lambda>c. \<not> glob_special c) (p @ '':'')"
    using assms(1) by (simp add: plain_prefix_def glob_special_def list_all_iff)
  from glob_match_starts [OF this, of "J @ '':*''"] m
  obtain r where "q @ '':'' @ I @ '':'' @ h = (p @ '':'') @ r"
    by auto
  then have "q @ CHR '':'' # (I @ '':'' @ h) = p @ CHR '':'' # r"
    by simp
  moreover have "CHR '':'' \<notin> set q" "CHR '':'' \<notin> set p"
    using assms(1,2) by (auto simp: plain_prefix_def list_all_iff)
  ultimately have "q = p"
    by (rule first_delimiter [rotated 2])
  with assms(3) show False by simp
qed

lemma deleteAllByKeyName_calls:
  "calls (client (deleteAllByKeyName this p k)) =
     calls (client this) @ Keys (p @ '':'' @ k @ '':*'')
       # (let ks = filter (glob_match (p @ '':'' @ k @ '':*'')) (map fst (db (client this)))
          in if ks = [] then [] else [Del ks])"
  by (simp add: deleteAllByKeyName_def keys_def del_def Let_def)

lemma deleteAllByKeyName_db:
  "db (client (deleteAllByKeyName this p k)) =
     filter (\<lambda>(k', e). \<not> glob_match (p @ '':'' @ k @ '':*'') k') (db (client this))"
proof -
  have "filter (\<lambda>(k', e). k' \<notin> set (filter P (map fst xs))) xs = filter (\<lambda>(k', e). \<not> P k') xs"
    for P and xs :: "(key \<times> entry) list"
    by (rule filter_cong) (auto simp: rev_image_eqI)
  moreover have "filter P (map fst xs) = [] \<Longrightarrow> filter (\<lambda>(k', e). \<not> P k') xs = xs"
    for P and xs :: "(key \<times> entry) list"
    by (induction xs) (auto split: if_splits)
  ultimately show ?thesis
    by (simp add: deleteAllByKeyName_def keys_def del_def Let_def)
qed

lemma map_of_filter_key:
  "map_of (filter (\<lambda>(k', e). P k') xs) k = (if P k then map_of xs k else None)"
  by (induction xs) auto

section \<open>The claims of the specification\<close>

subsection \<open>C1: how the keys of an identifier are enumerated\<close>

text \<open>
  Claim C1 says that \<open>deleteAllByKeyName\<close> enumerates the keys matching
  \<open><prefix>:<identifier>:*\<close> with a cursor-based iteration and never with a blocking
  listing of the whole keyspace. The method's own comment says the same ("using SCAN instead
  of KEYS"). The code does otherwise: for every prefix, identifier and store, the first
  command it issues is \<open>KEYS\<close> with that pattern, the single blocking listing.
\<close>

theorem deleteAllByKeyName_issues_KEYS:
  "\<exists>rest. calls (client (deleteAllByKeyName this prefix keyName)) =
            calls (client this) @ Keys (prefix @ '':'' @ keyName @ '':*'') # rest"
  by (simp add: deleteAllByKeyName_calls)

subsection \<open>C2: the blacklist is checked first and wins\<close>

text \<open>
  Claim C2: \<open>validateJWT\<close> asks for the blacklisted key first; when that key exists
  the call fails with "JWT is blacklisted" after that one question, whether or not the valid
  key exists. In particular a token stored both as valid and as blacklisted for an identifier,
  in either order, fails with "JWT is blacklisted".
\<close>

theorem validateJWT_blacklist_first:
  "(map_of (db (client this)) (record_key (prefixBlacklist this) keyName rawJWT) \<noteq> None \<longrightarrow>
      fst (validateJWT this keyName rawJWT) = Inl Blacklisted
      \<and> calls (client (snd (validateJWT this keyName rawJWT))) =
          calls (client this) @ [Exists (record_key (prefixBlacklist this) keyName rawJWT)])
   \<and> fst (validateJWT
            (snd (storeBlacklistedJWT (snd (storeValidJWT this keyName rawJWT l e))
                    keyName rawJWT l' e'))
            keyName rawJWT) = Inl Blacklisted
   \<and> fst (validateJWT
            (snd (storeValidJWT (snd (storeBlacklistedJWT this keyName rawJWT l e))
                    keyName rawJWT l' e'))
            keyName rawJWT) = Inl Blacklisted"
  by (simp add: validateJWT_result validateJWT_calls storeValidJWT_record_under
        storeBlacklistedJWT_record_under map_of_record_under)

text \<open>
  The scenario of the specification: \<open>tok-A\<close> stored as valid and then as blacklisted for
  \<open>user123\<close>; both keys exist and validation fails with the blacklist error.
\<close>

theorem validateJWT_blacklist_first_witness:
  "map_of (db (client (snd (storeBlacklistedJWT
                   (snd (storeValidJWT store0 ''user123'' ''tok-A'' ''127.0.0.1'' (Some (Num 3600))))
                   ''user123'' ''tok-A'' ''127.0.0.1'' (Some (Num 3600))))))
      (''blacklisted-jwt:user123:'' @ hashJWT ''tok-A'') \<noteq> None
   \<and> map_of (db (client (snd (storeBlacklistedJWT
                   (snd (storeValidJWT store0 ''user123'' ''tok-A'' ''127.0.0.1'' (Some (Num 3600))))
                   ''user123'' ''tok-A'' ''127.0.0.1'' (Some (Num 3600))))))
      (''valid-jwt:user123:'' @ hashJWT ''tok-A'') \<noteq> None
   \<and> fst (validateJWT
        (snd (storeBlacklistedJWT
                (snd (storeValidJWT store0 ''user123'' ''tok-A'' ''127.0.0.1'' (Some (Num 3600))))
                ''user123'' ''tok-A'' ''127.0.0.1'' (Some (Num 3600))))
        ''user123'' ''tok-A'') = Inl (Error ''JWT is blacklisted'')"
  using validateJWT_blacklist_first
    [of "snd (storeBlacklistedJWT
                (snd (storeValidJWT store0 ''user123'' ''tok-A'' ''127.0.0.1'' (Some (Num 3600))))
                ''user123'' ''tok-A'' ''127.0.0.1'' (Some (Num 3600)))" "''user123''" "''tok-A''"]
  by (simp add: store0_simps storeValidJWT_record_under
        storeBlacklistedJWT_record_under map_of_record_under Blacklisted_def)

subsection \<open>C3: a token that is not blacklisted\<close>

text \<open>
  Claim C3: when the blacklisted key does not exist, \<open>validateJWT\<close> fails with
  "JWT does not exist in valid list" exactly when the valid key is absent, and returns
  \<open>true\<close> exactly when it is present. It issues the two existence checks, in this order,
  and nothing else: no field of the record is read, and the database is left as it was.
\<close>

theorem validateJWT_not_blacklisted:
  "map_of (db (client this)) (record_key (prefixBlacklist this) keyName rawJWT) = None \<Longrightarrow>
     (fst (validateJWT this keyName rawJWT) = Inl NotFound
        \<longleftrightarrow> map_of (db (client this)) (record_key (prefixValid this) keyName rawJWT) = None)
   \<and> (fst (validateJWT this keyName rawJWT) = Inr True
        \<longleftrightarrow> map_of (db (client this)) (record_key (prefixValid this) keyName rawJWT) \<noteq> None)
   \<and> calls (client (snd (validateJWT this keyName rawJWT))) =
        calls (client this) @ [Exists (record_key (prefixBlacklist this) keyName rawJWT),
                               Exists (record_key (prefixValid this) keyName rawJWT)]
   \<and> db (client (snd (validateJWT this keyName rawJWT))) = db (client this)"
  by (simp add: validateJWT_result validateJWT_calls validateJWT_db)

text \<open>
  After \<open>tok-A\<close> was stored as valid for \<open>user123\<close>, it validates and \<open>tok-B\<close>
  is not found.
\<close>

theorem validateJWT_not_blacklisted_witness:
  "map_of (db (client (snd (storeValidJWT store0 ''user123'' ''tok-A'' ''127.0.0.1'' (Some (Num 3600))))))
      (''blacklisted-jwt:user123:'' @ hashJWT ''tok-A'') = None
   \<and> fst (validateJWT (snd (storeValidJWT store0 ''user123'' ''tok-A'' ''127.0.0.1'' (Some (Num 3600))))
           ''user123'' ''tok-A'') = Inr True
   \<and> fst (validateJWT (snd (storeValidJWT store0 ''user123'' ''tok-A'' ''127.0.0.1'' (Some (Num 3600))))
           ''user123'' ''tok-B'') = Inl (Error ''JWT does not exist in valid list'')"
proof -
  let ?s = "snd (storeValidJWT store0 ''user123'' ''tok-A'' ''127.0.0.1'' (Some (Num 3600)))"
  have A: "map_of (db (client ?s)) (record_key (prefixBlacklist ?s) ''user123'' ''tok-A'') = None"
    by (simp add: store0_simps storeValidJWT_record_under map_of_record_under)
  have B: "map_of (db (client ?s)) (record_key (prefixBlacklist ?s) ''user123'' ''tok-B'') = None"
    by (simp add: store0_simps storeValidJWT_record_under map_of_record_under)
  have ne: "hashJWT ''tok-B'' \<noteq> hashJWT ''tok-A''"
    using hashJWT_tok_A_B by simp
  show ?thesis
    using A validateJWT_not_blacklisted [OF A] validateJWT_not_blacklisted [OF B] ne
    by (simp add: store0_simps storeValidJWT_record_under map_of_record_under NotFound_def)
qed

subsection \<open>C4: the key and the fields of a valid record\<close>

text \<open>
  Claim C4: \<open>storeValidJWT\<close> writes under exactly the key
  \<open><prefixValid>:<keyName>:<fingerprint>\<close>, where the fingerprint is the SHA-256 digest
  of the token's bytes in 64 lowercase hexadecimal digits, and the fields it writes are exactly
  \<open>keyName\<close>, \<open>jwtHash\<close> and \<open>locale\<close>. The one write command carries that key and
  those fields (the only other command is the expiration of the same key); afterwards the key
  holds the three values, a key that was new holds nothing else, and no other key has changed.
\<close>

theorem storeValidJWT_writes_record:
  "hashJWT rawJWT = hex_digest (sha256 (map of_char rawJWT))
   \<and> length (hashJWT rawJWT) = 64
   \<and> set (hashJWT rawJWT) \<subseteq> set ''0123456789abcdef''
   \<and> (\<exists>rest. calls (client (snd (storeValidJWT this keyName rawJWT locale expiration))) =
          calls (client this)
            @ HSet (prefixValid this @ '':'' @ keyName @ '':'' @ hashJWT rawJWT)
                [(''keyName'', keyName), (''jwtHash'', hashJWT rawJWT), (''locale'', locale)]
            # rest
        \<and> (rest = [] \<or> (\<exists>n. rest =
              [Expire (prefixValid this @ '':'' @ keyName @ '':'' @ hashJWT rawJWT) n])))
   \<and> (\<exists>e. map_of (db (client (snd (storeValidJWT this keyName rawJWT locale expiration))))
              (prefixValid this @ '':'' @ keyName @ '':'' @ hashJWT rawJWT) = Some e
        \<and> map_of (hash e) ''keyName'' = Some keyName
        \<and> map_of (hash e) ''jwtHash'' = Some (hashJWT rawJWT)
        \<and> map_of (hash e) ''locale'' = Some locale
        \<and> (map_of (db (client this))
              (prefixValid this @ '':'' @ keyName @ '':'' @ hashJWT rawJWT) = None \<longrightarrow>
            hash e = [(''keyName'', keyName), (''jwtHash'', hashJWT rawJWT), (''locale'', locale)]))
   \<and> (\<forall>k'. k' \<noteq> prefixValid this @ '':'' @ keyName @ '':'' @ hashJWT rawJWT \<longrightarrow>
          map_of (db (client (snd (storeValidJWT this keyName rawJWT locale expiration)))) k' =
          map_of (db (client this)) k')"
proof (intro conjI)
  show "hashJWT rawJWT = hex_digest (sha256 (map of_char rawJWT))"
    by (simp add: hashJWT_def)
  show "length (hashJWT rawJWT) = 64"
    by (rule length_hashJWT)
  show "set (hashJWT rawJWT) \<subseteq> set ''0123456789abcdef''"
    by (rule set_hashJWT)
  show "\<exists>rest. calls (client (snd (storeValidJWT this keyName rawJWT locale expiration))) =
          calls (client this)
            @ HSet (prefixValid this @ '':'' @ keyName @ '':'' @ hashJWT rawJWT)
                [(''keyName'', keyName), (''jwtHash'', hashJWT rawJWT), (''locale'', locale)]
            # rest
        \<and> (rest = [] \<or> (\<exists>n. rest =
              [Expire (prefixValid this @ '':'' @ keyName @ '':'' @ hashJWT rawJWT) n]))"
    by (simp add: storeValidJWT_record_under calls_record_under)
  show "\<exists>e. map_of (db (client (snd (storeValidJWT this keyName rawJWT locale expiration))))
              (prefixValid this @ '':'' @ keyName @ '':'' @ hashJWT rawJWT) = Some e
        \<and> map_of (hash e) ''keyName'' = Some keyName
        \<and> map_of (hash e) ''jwtHash'' = Some (hashJWT rawJWT)
        \<and> map_of (hash e) ''locale'' = Some locale
        \<and> (map_of (db (client this))
              (prefixValid this @ '':'' @ keyName @ '':'' @ hashJWT rawJWT) = None \<longrightarrow>
            hash e = [(''keyName'', keyName), (''jwtHash'', hashJWT rawJWT), (''locale'', locale)])"
    using hash_written_entry [of "client this" _ keyName rawJWT "locale" expiration]
      hash_written_entry_fresh [of "client this" _ keyName rawJWT "locale" expiration]
    by (simp add: storeValidJWT_record_under map_of_record_under)
  show "\<forall>k'. k' \<noteq> prefixValid this @ '':'' @ keyName @ '':'' @ hashJWT rawJWT \<longrightarrow>
          map_of (db (client (snd (storeValidJWT this keyName rawJWT locale expiration)))) k' =
          map_of (db (client this)) k'"
    by (simp add: storeValidJWT_record_under map_of_record_under)
qed

text \<open>
  On the empty database the record of \<open>tok-A\<close> for \<open>user123\<close> holds exactly the three
  fields, and another key stays absent.
\<close>

theorem storeValidJWT_writes_record_witness:
  "length (hashJWT ''tok-A'') = 64
   \<and> (\<exists>e. map_of (db (client (snd (storeValidJWT store0 ''user123'' ''tok-A'' ''127.0.0.1'' None))))
              (prefixValid store0 @ '':'' @ ''user123'' @ '':'' @ hashJWT ''tok-A'') = Some e
        \<and> hash e = [(''keyName'', ''user123''), (''jwtHash'', hashJWT ''tok-A''),
                     (''locale'', ''127.0.0.1'')])
   \<and> map_of (db (client (snd (storeValidJWT store0 ''user123'' ''tok-A'' ''127.0.0.1'' None))))
        ''some-other-key'' = map_of (db (client store0)) ''some-other-key''"
proof -
  have fresh: "map_of (db (client store0))
      (prefixValid store0 @ '':'' @ ''user123'' @ '':'' @ hashJWT ''tok-A'') = None"
    by (simp add: store0_simps)
  have other: "''some-other-key'' \<noteq> prefixValid store0 @ '':'' @ ''user123'' @ '':'' @ hashJWT ''tok-A''"
    by (simp add: store0_simps)
  from fresh other
    storeValidJWT_writes_record [of "''tok-A''" store0 "''user123''" "''127.0.0.1''" None]
  show ?thesis by blast
qed

subsection \<open>C5: when the expiration is set\<close>

text \<open>
  Claim C5 says that with a positive number as \<open>expiration\<close> the operation sets the
  key's time to live to that number. As stated, for every positive number, this fails: the
  guard \<open>expiration && expiration > 0\<close> lets every positive number through, and the
  server takes whole seconds in its range only. With 1.5 \<open>storeValidJWT\<close> issues the field
  write and the \<open>EXPIRE\<close>, the server refuses it, the call throws the server's error and
  the key has no time to live; with 2 to the power 63 \<open>storeBlacklistedJWT\<close> ends the
  same way.
\<close>

theorem fractional_expiration_refused:
  "positive (Some (Num (3 / 2)))
   \<and> calls (client (snd (storeValidJWT store0 ''user123'' ''tok-A'' ''127.0.0.1'' (Some (Num (3 / 2)))))) =
       [HSet (''valid-jwt:user123:'' @ hashJWT ''tok-A'')
          [(''keyName'', ''user123''), (''jwtHash'', hashJWT ''tok-A''), (''locale'', ''127.0.0.1'')],
        Expire (''valid-jwt:user123:'' @ hashJWT ''tok-A'') (Num (3 / 2))]
   \<and> fst (storeValidJWT store0 ''user123'' ''tok-A'' ''127.0.0.1'' (Some (Num (3 / 2)))) =
       Inl (ErrorReply ''ERR value is not an integer or out of range'')
   \<and> map_option ttl
        (map_of (db (client (snd (storeValidJWT store0 ''user123'' ''tok-A'' ''127.0.0.1''
                                   (Some (Num (3 / 2)))))))
           (''valid-jwt:user123:'' @ hashJWT ''tok-A'')) = Some None
   \<and> positive (Some (Num 9223372036854775808))
   \<and> fst (storeBlacklistedJWT store0 ''user123'' ''tok-A'' ''127.0.0.1''
             (Some (Num 9223372036854775808))) =
       Inl (ErrorReply ''ERR value is not an integer or out of range'')
   \<and> map_option ttl
        (map_of (db (client (snd (storeBlacklistedJWT store0 ''user123'' ''tok-A'' ''127.0.0.1''
                                   (Some (Num 9223372036854775808))))))
           (''blacklisted-jwt:user123:'' @ hashJWT ''tok-A'')) = Some None"
proof -
  have "\<lfloor>3 / 2 :: rat\<rfloor> = 1"
    by (rule floor_unique) simp_all
  then have a: "accepted c (Num (3 / 2)) = None" "long_long (Num (3 / 2)) = None"
    "accepted c (Num 9223372036854775808) = None" "long_long (Num 9223372036854775808) = None"
    for c
    by (simp_all add: accepted_def long_long_def LLONG_MAX_def)
  have p: "positive (Some (Num (3 / 2)))" "positive (Some (Num 9223372036854775808))"
    by (simp_all add: positive_def truthy_def greater_zero_def)
  show ?thesis
    by (simp add: p a store0_simps storeValidJWT_record_under storeBlacklistedJWT_record_under
          calls_record_under fst_record_under map_of_record_under ttl_written_entry)
qed

text \<open>
  Claim C5, amended, for \<open>storeValidJWT\<close> and \<open>storeBlacklistedJWT\<close> alike. The guard
  holds exactly for the numbers greater than 0 and for \<open>Infinity\<close>. When it holds, the
  operation issues the field write and then one \<open>EXPIRE\<close> of the key with the number given.
  When that number is a whole number of seconds that the server takes (positive, and not
  overflowing 64 bits in milliseconds from the server's clock), the operation succeeds and the
  key's time to live is that number. When it is any other positive number, the operation fails
  with the server's error reply, after the write, and the key keeps the time to live it had
  before (none, when the key is new). When the guard does not hold (0, a negative number,
  \<open>NaN\<close>, or no \<open>expiration\<close>), the operation issues the field write only and succeeds, and
  the key keeps the time to live it had before.
\<close>

theorem store_expiration:
  "(positive e \<longleftrightarrow> (\<exists>r. e = Some (Num r) \<and> 0 < r) \<or> e = Some PosInfinity)
   \<and> (positive e \<longrightarrow>
        calls (client (snd (storeValidJWT this keyName rawJWT l e))) =
          calls (client this)
            @ [HSet (record_key (prefixValid this) keyName rawJWT) (record_fields keyName rawJWT l),
               Expire (record_key (prefixValid this) keyName rawJWT) (the e)]
      \<and> calls (client (snd (storeBlacklistedJWT this keyName rawJWT l e))) =
          calls (client this)
            @ [HSet (record_key (prefixBlacklist this) keyName rawJWT) (record_fields keyName rawJWT l),
               Expire (record_key (prefixBlacklist this) keyName rawJWT) (the e)])
   \<and> (0 < n \<and> n \<le> LLONG_MAX div 1000 \<and> n * 1000 \<le> LLONG_MAX - now (client this) \<longrightarrow>
        fst (storeValidJWT this keyName rawJWT l (Some (Num (of_int n)))) = Inr ()
      \<and> map_option ttl
           (map_of (db (client (snd (storeValidJWT this keyName rawJWT l (Some (Num (of_int n)))))))
              (record_key (prefixValid this) keyName rawJWT)) = Some (Some n)
      \<and> fst (storeBlacklistedJWT this keyName rawJWT l (Some (Num (of_int n)))) = Inr ()
      \<and> map_option ttl
           (map_of (db (client (snd (storeBlacklistedJWT this keyName rawJWT l (Some (Num (of_int n)))))))
              (record_key (prefixBlacklist this) keyName rawJWT)) = Some (Some n))
   \<and> (positive e
        \<and> \<not> (\<exists>m. e = Some (Num (of_int m)) \<and> m \<le> LLONG_MAX div 1000
                  \<and> m * 1000 \<le> LLONG_MAX - now (client this)) \<longrightarrow>
        (\<exists>msg. fst (storeValidJWT this keyName rawJWT l e) = Inl (ErrorReply msg))
      \<and> map_option ttl
           (map_of (db (client (snd (storeValidJWT this keyName rawJWT l e))))
              (record_key (prefixValid this) keyName rawJWT)) =
          Some (case map_of (db (client this)) (record_key (prefixValid this) keyName rawJWT) of
                  None \<Rightarrow> None | Some old \<Rightarrow> ttl old)
      \<and> (\<exists>msg. fst (storeBlacklistedJWT this keyName rawJWT l e) = Inl (ErrorReply msg))
      \<and> map_option ttl
           (map_of (db (client (snd (storeBlacklistedJWT this keyName rawJWT l e))))
              (record_key (prefixBlacklist this) keyName rawJWT)) =
          Some (case map_of (db (client this)) (record_key (prefixBlacklist this) keyName rawJWT) of
                  None \<Rightarrow> None | Some old \<Rightarrow> ttl old))
   \<and> (\<not> positive e \<longrightarrow>
        fst (storeValidJWT this keyName rawJWT l e) = Inr ()
      \<and> calls (client (snd (storeValidJWT this keyName rawJWT l e))) =
          calls (client this)
            @ [HSet (record_key (prefixValid this) keyName rawJWT) (record_fields keyName rawJWT l)]
      \<and> map_option ttl
           (map_of (db (client (snd (storeValidJWT this keyName rawJWT l e))))
              (record_key (prefixValid this) keyName rawJWT)) =
          Some (case map_of (db (client this)) (record_key (prefixValid this) keyName rawJWT) of
                  None \<Rightarrow> None | Some old \<Rightarrow> ttl old)
      \<and> fst (storeBlacklistedJWT this keyName rawJWT l e) = Inr ()
      \<and> calls (client (snd (storeBlacklistedJWT this keyName rawJWT l e))) =
          calls (client this)
            @ [HSet (record_key (prefixBlacklist this) keyName rawJWT) (record_fields keyName rawJWT l)]
      \<and> map_option ttl
           (map_of (db (client (snd (storeBlacklistedJWT this keyName rawJWT l e))))
              (record_key (prefixBlacklist this) keyName rawJWT)) =
          Some (case map_of (db (client this)) (record_key (prefixBlacklist this) keyName rawJWT) of
                  None \<Rightarrow> None | Some old \<Rightarrow> ttl old))"
proof (intro conjI impI)
  show "positive e \<longleftrightarrow> (\<exists>r. e = Some (Num r) \<and> 0 < r) \<or> e = Some PosInfinity"
    by (rule positive_iff)
next
  assume "0 < n \<and> n \<le> LLONG_MAX div 1000 \<and> n * 1000 \<le> LLONG_MAX - now (client this)"
  then have acc: "accepted (client this) (Num (of_int n)) = Some n"
    and pos: "positive (Some (Num (of_int n)))"
    using accepted_int [of n "client this"] by (simp_all add: positive_iff LLONG_MAX_def)
  show "fst (storeValidJWT this keyName rawJWT l (Some (Num (of_int n)))) = Inr ()"
    "fst (storeBlacklistedJWT this keyName rawJWT l (Some (Num (of_int n)))) = Inr ()"
    using acc pos
    by (simp_all add: storeValidJWT_record_under storeBlacklistedJWT_record_under fst_record_under)
  show "map_option ttl
           (map_of (db (client (snd (storeValidJWT this keyName rawJWT l (Some (Num (of_int n)))))))
              (record_key (prefixValid this) keyName rawJWT)) = Some (Some n)"
    "map_option ttl
           (map_of (db (client (snd (storeBlacklistedJWT this keyName rawJWT l (Some (Num (of_int n)))))))
              (record_key (prefixBlacklist this) keyName rawJWT)) = Some (Some n)"
    using acc pos
    by (simp_all add: storeValidJWT_record_under storeBlacklistedJWT_record_under
          map_of_record_under ttl_written_entry)
next
  assume "positive e
        \<and> \<not> (\<exists>m. e = Some (Num (of_int m)) \<and> m \<le> LLONG_MAX div 1000
                  \<and> m * 1000 \<le> LLONG_MAX - now (client this))"
  then have pos: "positive e" and ref: "accepted (client this) (the e) = None"
    using refused_unless_integer_in_range [of e "client this"] by simp_all
  show "\<exists>msg. fst (storeValidJWT this keyName rawJWT l e) = Inl (ErrorReply msg)"
    "\<exists>msg. fst (storeBlacklistedJWT this keyName rawJWT l e) = Inl (ErrorReply msg)"
    using pos ref
    by (simp_all add: storeValidJWT_record_under storeBlacklistedJWT_record_under fst_record_under)
  show "map_option ttl
           (map_of (db (client (snd (storeValidJWT this keyName rawJWT l e))))
              (record_key (prefixValid this) keyName rawJWT)) =
          Some (case map_of (db (client this)) (record_key (prefixValid this) keyName rawJWT) of
                  None \<Rightarrow> None | Some old \<Rightarrow> ttl old)"
    "map_option ttl
           (map_of (db (client (snd (storeBlacklistedJWT this keyName rawJWT l e))))
              (record_key (prefixBlacklist this) keyName rawJWT)) =
          Some (case map_of (db (client this)) (record_key (prefixBlacklist this) keyName rawJWT) of
                  None \<Rightarrow> None | Some old \<Rightarrow> ttl old)"
    using pos ref
    by (simp_all add: storeValidJWT_record_under storeBlacklistedJWT_record_under
          map_of_record_under ttl_written_entry)
qed (simp_all add: storeValidJWT_record_under storeBlacklistedJWT_record_under
       calls_record_under fst_record_under map_of_record_under ttl_written_entry)

text \<open>
  Storing with 3600 seconds issues the write and the expiration and sets 3600; storing with
  \<open>Infinity\<close> fails with an error reply; storing with 0 issues the write only; storing the
  same token again without an expiration keeps the 3600 seconds.
\<close>

theorem store_expiration_witness:
  "calls (client (snd (storeValidJWT store0 ''user123'' ''tok-A'' ''127.0.0.1'' (Some (Num 3600))))) =
     [HSet (''valid-jwt:user123:'' @ hashJWT ''tok-A'')
        [(''keyName'', ''user123''), (''jwtHash'', hashJWT ''tok-A''), (''locale'', ''127.0.0.1'')],
      Expire (''valid-jwt:user123:'' @ hashJWT ''tok-A'') (Num 3600)]
   \<and> fst (storeValidJWT store0 ''user123'' ''tok-A'' ''127.0.0.1'' (Some (Num 3600))) = Inr ()
   \<and> map_option ttl
        (map_of (db (client (snd (storeValidJWT store0 ''user123'' ''tok-A'' ''127.0.0.1''
                                   (Some (Num 3600))))))
           (''valid-jwt:user123:'' @ hashJWT ''tok-A'')) = Some (Some 3600)
   \<and> (\<exists>msg. fst (storeValidJWT store0 ''user123'' ''tok-A'' ''127.0.0.1'' (Some PosInfinity)) =
          Inl (ErrorReply msg))
   \<and> calls (client (snd (storeBlacklistedJWT store0 ''user123'' ''tok-A'' ''127.0.0.1'' (Some (Num 0))))) =
     [HSet (''blacklisted-jwt:user123:'' @ hashJWT ''tok-A'')
        [(''keyName'', ''user123''), (''jwtHash'', hashJWT ''tok-A''), (''locale'', ''127.0.0.1'')]]
   \<and> map_option ttl
        (map_of (db (client (snd (storeValidJWT
                   (snd (storeValidJWT store0 ''user123'' ''tok-A'' ''127.0.0.1'' (Some (Num 3600))))
                   ''user123'' ''tok-A'' ''127.0.0.1'' None))))
           (''valid-jwt:user123:'' @ hashJWT ''tok-A'')) = Some (Some 3600)"
proof -
  let ?s = "snd (storeValidJWT store0 ''user123'' ''tok-A'' ''127.0.0.1'' (Some (Num 3600)))"
  have s: "prefixValid ?s = ''valid-jwt''"
    by (simp add: storeValidJWT_record_under store0_simps)
  have p: "positive (Some (Num 3600))" "positive (Some PosInfinity)" "\<not> positive (Some (Num 0))"
    "\<not> positive None"
    by (simp_all add: positive_def truthy_def greater_zero_def)
  note a = store_expiration [where e = "Some (Num 3600)" and this = store0 and n = 3600
      and keyName = "''user123''" and rawJWT = "''tok-A''" and l = "''127.0.0.1''"]
  note b = store_expiration [where e = "Some PosInfinity" and this = store0
      and keyName = "''user123''" and rawJWT = "''tok-A''" and l = "''127.0.0.1''"]
  note c = store_expiration [where e = "Some (Num 0)" and this = store0
      and keyName = "''user123''" and rawJWT = "''tok-A''" and l = "''127.0.0.1''"]
  note d = store_expiration [where e = None and this = ?s
      and keyName = "''user123''" and rawJWT = "''tok-A''" and l = "''127.0.0.1''"]
  have first: "map_option ttl (map_of (db (client ?s)) (''valid-jwt:user123:'' @ hashJWT ''tok-A''))
      = Some (Some 3600)"
    and ok: "fst (storeValidJWT store0 ''user123'' ''tok-A'' ''127.0.0.1'' (Some (Num 3600))) = Inr ()"
    using a by (simp_all add: store0_simps LLONG_MAX_def)
  have calls1: "calls (client ?s) =
     [HSet (''valid-jwt:user123:'' @ hashJWT ''tok-A'')
        [(''keyName'', ''user123''), (''jwtHash'', hashJWT ''tok-A''), (''locale'', ''127.0.0.1'')],
      Expire (''valid-jwt:user123:'' @ hashJWT ''tok-A'') (Num 3600)]"
    using a p by (simp add: store0_simps)
  have refused: "\<exists>msg. fst (storeValidJWT store0 ''user123'' ''tok-A'' ''127.0.0.1'' (Some PosInfinity)) =
          Inl (ErrorReply msg)"
    using b p by simp
  have calls0: "calls (client (snd (storeBlacklistedJWT store0 ''user123'' ''tok-A'' ''127.0.0.1'' (Some (Num 0))))) =
     [HSet (''blacklisted-jwt:user123:'' @ hashJWT ''tok-A'')
        [(''keyName'', ''user123''), (''jwtHash'', hashJWT ''tok-A''), (''locale'', ''127.0.0.1'')]]"
    using c p by (simp add: store0_simps)
  from first obtain old where
    o: "map_of (db (client ?s)) (''valid-jwt:user123:'' @ hashJWT ''tok-A'') = Some old"
      "ttl old = Some 3600"
    by auto
  have kept: "map_option ttl
        (map_of (db (client (snd (storeValidJWT ?s ''user123'' ''tok-A'' ''127.0.0.1'' None))))
           (''valid-jwt:user123:'' @ hashJWT ''tok-A'')) = Some (Some 3600)"
    using d p o by (simp add: s)
  from calls1 ok first refused calls0 kept show ?thesis
    by blast
qed

subsection \<open>C6: one bulk delete, or none\<close>

text \<open>
  Claim C6: when the enumeration of \<open>deleteAllByKeyName\<close> yields one or more keys, the
  operation issues exactly one \<open>DEL\<close> with all of them, which removes them; when it yields
  none, the operation issues no \<open>DEL\<close> and leaves the database as it was. In both cases it
  returns normally.
\<close>

theorem deleteAllByKeyName_single_del:
  "(filter (glob_match (prefix @ '':'' @ keyName @ '':*'')) (map fst (db (client this))) \<noteq> [] \<longrightarrow>
      calls (client (deleteAllByKeyName this prefix keyName)) =
        calls (client this)
          @ [Keys (prefix @ '':'' @ keyName @ '':*''),
             Del (filter (glob_match (prefix @ '':'' @ keyName @ '':*''))
                    (map fst (db (client this))))]
      \<and> db (client (deleteAllByKeyName this prefix keyName)) =
          filter (\<lambda>(k, e). \<not> glob_match (prefix @ '':'' @ keyName @ '':*'') k)
            (db (client this)))
   \<and> (filter (glob_match (prefix @ '':'' @ keyName @ '':*'')) (map fst (db (client this))) = [] \<longrightarrow>
      calls (client (deleteAllByKeyName this prefix keyName)) =
        calls (client this) @ [Keys (prefix @ '':'' @ keyName @ '':*'')]
      \<and> db (client (deleteAllByKeyName this prefix keyName)) = db (client this))"
proof -
  have "filter P (map fst xs) = [] \<Longrightarrow> filter (\<lambda>(k, e). \<not> P k) xs = xs"
    for P and xs :: "(key \<times> entry) list"
    by (induction xs) (auto split: if_splits)
  then show ?thesis
    by (simp add: deleteAllByKeyName_calls deleteAllByKeyName_db Let_def)
qed

text \<open>
  Two tokens stored for \<open>user123\<close> are deleted by one \<open>DEL\<close> of both keys; on the empty
  database only the enumeration is issued.
\<close>

theorem deleteAllByKeyName_single_del_witness:
  "calls (client (deleteAllByKeyName
       (snd (storeValidJWT
               (snd (storeValidJWT store0 ''user123'' ''tok-A'' ''127.0.0.1'' (Some (Num 3600))))
               ''user123'' ''tok-B'' ''127.0.0.1'' (Some (Num 3600))))
       ''valid-jwt'' ''user123'')) =
     [HSet (''valid-jwt:user123:'' @ hashJWT ''tok-A'')
        [(''keyName'', ''user123''), (''jwtHash'', hashJWT ''tok-A''), (''locale'', ''127.0.0.1'')],
      Expire (''valid-jwt:user123:'' @ hashJWT ''tok-A'') (Num 3600),
      HSet (''valid-jwt:user123:'' @ hashJWT ''tok-B'')
        [(''keyName'', ''user123''), (''jwtHash'', hashJWT ''tok-B''), (''locale'', ''127.0.0.1'')],
      Expire (''valid-jwt:user123:'' @ hashJWT ''tok-B'') (Num 3600),
      Keys ''valid-jwt:user123:*'',
      Del [''valid-jwt:user123:'' @ hashJWT ''tok-A'', ''valid-jwt:user123:'' @ hashJWT ''tok-B'']]
   \<and> db (client (deleteAllByKeyName
       (snd (storeValidJWT
               (snd (storeValidJWT store0 ''user123'' ''tok-A'' ''127.0.0.1'' (Some (Num 3600))))
               ''user123'' ''tok-B'' ''127.0.0.1'' (Some (Num 3600))))
       ''valid-jwt'' ''user123'')) = []
   \<and> calls (client (deleteAllByKeyName store0 ''valid-jwt'' ''user123'')) =
       [Keys ''valid-jwt:user123:*'']
   \<and> db (client (deleteAllByKeyName store0 ''valid-jwt'' ''user123'')) = []"
proof -
  let ?s = "snd (storeValidJWT
               (snd (storeValidJWT store0 ''user123'' ''tok-A'' ''127.0.0.1'' (Some (Num 3600))))
               ''user123'' ''tok-B'' ''127.0.0.1'' (Some (Num 3600)))"
  note ne = hashJWT_tok_A_B
  have m: "glob_match ''valid-jwt:user123:*'' (''valid-jwt:user123:'' @ h)" for h
    using glob_match_prefix [of "''valid-jwt:user123:''" h]
    by (simp add: glob_special_def)
  have k: "db (client ?s) =
      [(''valid-jwt:user123:'' @ hashJWT ''tok-A'',
        \<lparr>hash = record_fields ''user123'' ''tok-A'' ''127.0.0.1'', ttl = Some 3600\<rparr>),
       (''valid-jwt:user123:'' @ hashJWT ''tok-B'',
        \<lparr>hash = record_fields ''user123'' ''tok-B'' ''127.0.0.1'', ttl = Some 3600\<rparr>)]"
    using ne
    by (simp add: store0_def constructor_def empty_client_def storeValidJWT_def positive_def
          truthy_def greater_zero_def hSet_def expire_def long_long_def LLONG_MAX_def Let_def)
  have c: "calls (client ?s) =
     [HSet (''valid-jwt:user123:'' @ hashJWT ''tok-A'') (record_fields ''user123'' ''tok-A'' ''127.0.0.1''),
      Expire (''valid-jwt:user123:'' @ hashJWT ''tok-A'') (Num 3600),
      HSet (''valid-jwt:user123:'' @ hashJWT ''tok-B'') (record_fields ''user123'' ''tok-B'' ''127.0.0.1''),
      Expire (''valid-jwt:user123:'' @ hashJWT ''tok-B'') (Num 3600)]"
    by (simp add: store0_simps storeValidJWT_record_under calls_record_under positive_3600)
  show ?thesis
    using deleteAllByKeyName_single_del [of "''valid-jwt''" "''user123''" ?s]
      deleteAllByKeyName_single_del [of "''valid-jwt''" "''user123''" store0]
    by (simp add: k c store0_simps m glob_match_star)
qed

subsection \<open>C7: blacklisting has the contract of recording as valid\<close>

text \<open>
  Claim C7: \<open>storeBlacklistedJWT\<close> has the contract of \<open>storeValidJWT\<close> with the
  blacklist prefix in place of the valid one. Both are the recording contract
  \<open>record_under\<close> at their prefix (same fingerprint, same fields, same conditional
  expiration, same result), and blacklisting is recording as valid on a store whose valid
  prefix is the blacklist prefix.
\<close>

theorem storeBlacklistedJWT_same_contract:
  "storeValidJWT this keyName rawJWT l e =
     (fst (record_under (prefixValid this) keyName rawJWT l e (client this)),
      this\<lparr>client := snd (record_under (prefixValid this) keyName rawJWT l e (client this))\<rparr>)
   \<and> storeBlacklistedJWT this keyName rawJWT l e =
     (fst (record_under (prefixBlacklist this) keyName rawJWT l e (client this)),
      this\<lparr>client := snd (record_under (prefixBlacklist this) keyName rawJWT l e (client this))\<rparr>)
   \<and> storeBlacklistedJWT this keyName rawJWT l e =
     (fst (storeValidJWT (this\<lparr>prefixValid := prefixBlacklist this\<rparr>) keyName rawJWT l e),
      (snd (storeValidJWT (this\<lparr>prefixValid := prefixBlacklist this\<rparr>) keyName rawJWT l e))
        \<lparr>prefixValid := prefixValid this\<rparr>)"
  by (simp add: storeValidJWT_record_under storeBlacklistedJWT_record_under)

subsection \<open>C8: the two categories do not mix\<close>

text \<open>
  Claim C8 says that recording a token as valid for an identifier never creates a blacklisted
  record for it nor makes the token discoverable as blacklisted. As stated, for every store,
  this fails: the constructor takes any two prefixes. On a store made with the same prefix for
  both categories the valid key is the blacklisted key: the blacklisted key of \<open>tok-A\<close> is
  absent before \<open>storeValidJWT\<close> and present after it, and the token just stored as valid
  is rejected as blacklisted. On a store with the different prefixes \<open>a:u\<close> (valid) and
  \<open>a\<close> (blacklisted), the enumeration of the blacklisted records of \<open>u\<close> is empty before
  \<open>tok-A\<close> is stored as valid for \<open>u\<close> and returns that valid record after it, and
  deleting the blacklisted records of \<open>u\<close> deletes it. On a store whose blacklist prefix is
  \<open>*\<close> the enumeration of the blacklisted records of \<open>u\<close> returns the valid record too.
\<close>

theorem categories_not_isolated:
  "map_of (db (client same_prefix_store))
     (prefixBlacklist same_prefix_store @ '':'' @ ''user123'' @ '':'' @ hashJWT ''tok-A'') = None
   \<and> map_of (db (client (snd (storeValidJWT same_prefix_store ''user123'' ''tok-A'' ''127.0.0.1'' None))))
     (prefixBlacklist same_prefix_store @ '':'' @ ''user123'' @ '':'' @ hashJWT ''tok-A'') \<noteq> None
   \<and> fst (validateJWT (snd (storeValidJWT same_prefix_store ''user123'' ''tok-A'' ''127.0.0.1'' None))
          ''user123'' ''tok-A'') = Inl Blacklisted
   \<and> prefixValid nested_prefix_store \<noteq> prefixBlacklist nested_prefix_store
   \<and> fst (keys (prefixBlacklist nested_prefix_store @ '':'' @ ''u'' @ '':*'')
            (client nested_prefix_store)) = []
   \<and> fst (keys (prefixBlacklist nested_prefix_store @ '':'' @ ''u'' @ '':*'')
            (client (snd (storeValidJWT nested_prefix_store ''u'' ''tok-A'' ''127.0.0.1'' None)))) =
       [prefixValid nested_prefix_store @ '':'' @ ''u'' @ '':'' @ hashJWT ''tok-A'']
   \<and> map_of (db (client (deleteAllByKeyName
                 (snd (storeValidJWT nested_prefix_store ''u'' ''tok-A'' ''127.0.0.1'' None))
                 (prefixBlacklist nested_prefix_store) ''u'')))
       (prefixValid nested_prefix_store @ '':'' @ ''u'' @ '':'' @ hashJWT ''tok-A'') = None
   \<and> prefixValid star_prefix_store \<noteq> prefixBlacklist star_prefix_store
   \<and> fst (keys (prefixBlacklist star_prefix_store @ '':'' @ ''u'' @ '':*'')
            (client (snd (storeValidJWT star_prefix_store ''u'' ''tok-A'' ''127.0.0.1'' None)))) =
       [prefixValid star_prefix_store @ '':'' @ ''u'' @ '':'' @ hashJWT ''tok-A'']"
proof -
  have same: "prefixValid same_prefix_store = ''jwt''" "prefixBlacklist same_prefix_store = ''jwt''"
    "db (client same_prefix_store) = []"
    by (simp_all add: same_prefix_store_def constructor_def empty_client_def)
  have nested: "prefixValid nested_prefix_store = ''a:u''"
    "prefixBlacklist nested_prefix_store = ''a''" "db (client nested_prefix_store) = []"
    by (simp_all add: nested_prefix_store_def constructor_def empty_client_def)
  have star: "prefixValid star_prefix_store = ''valid-jwt''"
    "prefixBlacklist star_prefix_store = ''*''" "db (client star_prefix_store) = []"
    by (simp_all add: star_prefix_store_def constructor_def empty_client_def)
  have m1: "glob_match ''a:u:*'' (''a:u:u:'' @ h)" for h
    using glob_match_prefix [of "''a:u:''" "''u:'' @ h"] by (simp add: glob_special_def)
  have m2: "glob_match ''*:u:*'' (''valid-jwt:u:'' @ h)" for h
    by (simp add: glob_match_star)
  show ?thesis
    by (simp add: same nested star storeValidJWT_record_under map_of_record_under
          keys_record_under validateJWT_result keys_def deleteAllByKeyName_db map_of_filter_key
          m1 m2 glob_match_star)
qed

text \<open>
  Claim C8, amended. On a store whose two prefixes differ, recording a token as valid for an
  identifier leaves every blacklisted key of that identifier as it was, neither created nor
  changed, so a token is found blacklisted after it exactly when it was before; and recording
  a token as blacklisted leaves every valid key of that identifier as it was. On a store whose
  two prefixes differ and contain neither the delimiter nor a pattern character (as the
  defaults do), the record is not discoverable under the other category either: the
  enumeration of the other category for the identifier returns what it returned before, and
  deleting all records of the other category for the identifier leaves the record in place.
\<close>

theorem category_isolation:
  "(prefixValid this \<noteq> prefixBlacklist this \<longrightarrow>
      map_of (db (client (snd (storeValidJWT this I T l e)))) (record_key (prefixBlacklist this) I T') =
        map_of (db (client this)) (record_key (prefixBlacklist this) I T')
    \<and> map_of (db (client (snd (storeBlacklistedJWT this I T l e)))) (record_key (prefixValid this) I T') =
        map_of (db (client this)) (record_key (prefixValid this) I T')
    \<and> (fst (validateJWT (snd (storeValidJWT this I T l e)) I T') = Inl Blacklisted
         \<longleftrightarrow> fst (validateJWT this I T') = Inl Blacklisted))
   \<and> (prefixValid this \<noteq> prefixBlacklist this
       \<and> plain_prefix (prefixValid this) \<and> plain_prefix (prefixBlacklist this) \<longrightarrow>
      fst (keys (prefixBlacklist this @ '':'' @ I @ '':*'')
             (client (snd (storeValidJWT this I T l e)))) =
        fst (keys (prefixBlacklist this @ '':'' @ I @ '':*'') (client this))
    \<and> fst (keys (prefixValid this @ '':'' @ I @ '':*'')
             (client (snd (storeBlacklistedJWT this I T l e)))) =
        fst (keys (prefixValid this @ '':'' @ I @ '':*'') (client this))
    \<and> map_of (db (client (deleteAllByKeyName (snd (storeValidJWT this I T l e))
                            (prefixBlacklist this) I)))
          (record_key (prefixValid this) I T) \<noteq> None
    \<and> map_of (db (client (deleteAllByKeyName (snd (storeBlacklistedJWT this I T l e))
                            (prefixValid this) I)))
          (record_key (prefixBlacklist this) I T) \<noteq> None)"
proof (intro conjI impI)
  assume ne: "prefixValid this \<noteq> prefixBlacklist this"
  then have k: "record_key (prefixBlacklist this) I T' \<noteq> record_key (prefixValid this) I T"
    "record_key (prefixValid this) I T' \<noteq> record_key (prefixBlacklist this) I T"
    using record_key_eq_iff [of "prefixBlacklist this" I T' "prefixValid this" T]
      record_key_eq_iff [of "prefixValid this" I T' "prefixBlacklist this" T]
    by auto
  from k show "map_of (db (client (snd (storeValidJWT this I T l e))))
        (record_key (prefixBlacklist this) I T') =
      map_of (db (client this)) (record_key (prefixBlacklist this) I T')"
    by (simp add: storeValidJWT_record_under map_of_record_under)
  from k show "map_of (db (client (snd (storeBlacklistedJWT this I T l e))))
        (record_key (prefixValid this) I T') =
      map_of (db (client this)) (record_key (prefixValid this) I T')"
    by (simp add: storeBlacklistedJWT_record_under map_of_record_under)
  from k show "fst (validateJWT (snd (storeValidJWT this I T l e)) I T') = Inl Blacklisted
      \<longleftrightarrow> fst (validateJWT this I T') = Inl Blacklisted"
    by (simp add: storeValidJWT_record_under map_of_record_under validateJWT_result
          Blacklisted_def NotFound_def)
next
  assume "prefixValid this \<noteq> prefixBlacklist this
       \<and> plain_prefix (prefixValid this) \<and> plain_prefix (prefixBlacklist this)"
  then have ne: "prefixValid this \<noteq> prefixBlacklist this"
    and pv: "plain_prefix (prefixValid this)" and pb: "plain_prefix (prefixBlacklist this)"
    by simp_all
  have nb: "\<not> glob_match (prefixBlacklist this @ '':'' @ I @ '':*'')
                (record_key (prefixValid this) I T)"
    using other_category_not_matched [OF pb pv] ne by auto
  have nv: "\<not> glob_match (prefixValid this @ '':'' @ I @ '':*'')
                (record_key (prefixBlacklist this) I T)"
    using other_category_not_matched [OF pv pb] ne by auto
  from nb show "fst (keys (prefixBlacklist this @ '':'' @ I @ '':*'')
             (client (snd (storeValidJWT this I T l e)))) =
        fst (keys (prefixBlacklist this @ '':'' @ I @ '':*'') (client this))"
    by (simp add: keys_def storeValidJWT_record_under keys_record_under)
  from nv show "fst (keys (prefixValid this @ '':'' @ I @ '':*'')
             (client (snd (storeBlacklistedJWT this I T l e)))) =
        fst (keys (prefixValid this @ '':'' @ I @ '':*'') (client this))"
    by (simp add: keys_def storeBlacklistedJWT_record_under keys_record_under)
  from nb show "map_of (db (client (deleteAllByKeyName (snd (storeValidJWT this I T l e))
                            (prefixBlacklist this) I)))
          (record_key (prefixValid this) I T) \<noteq> None"
    by (simp add: deleteAllByKeyName_db map_of_filter_key storeValidJWT_record_under
          map_of_record_under)
  from nv show "map_of (db (client (deleteAllByKeyName (snd (storeBlacklistedJWT this I T l e))
                            (prefixValid this) I)))
          (record_key (prefixBlacklist this) I T) \<noteq> None"
    by (simp add: deleteAllByKeyName_db map_of_filter_key storeBlacklistedJWT_record_under
          map_of_record_under)
qed

text \<open>
  On the default store, storing \<open>tok-A\<close> under one category leaves its key under the
  other category absent, the enumeration of the blacklisted records of \<open>user123\<close> stays
  empty, and deleting them leaves the valid record.
\<close>

theorem category_isolation_witness:
  "prefixValid store0 \<noteq> prefixBlacklist store0
   \<and> plain_prefix (prefixValid store0) \<and> plain_prefix (prefixBlacklist store0)
   \<and> map_of (db (client (snd (storeValidJWT store0 ''user123'' ''tok-A'' ''127.0.0.1'' (Some (Num 3600))))))
        (''blacklisted-jwt:user123:'' @ hashJWT ''tok-A'') = None
   \<and> map_of (db (client (snd (storeBlacklistedJWT store0 ''user123'' ''tok-A'' ''127.0.0.1'' (Some (Num 3600))))))
        (''valid-jwt:user123:'' @ hashJWT ''tok-A'') = None
   \<and> fst (keys ''blacklisted-jwt:user123:*''
        (client (snd (storeValidJWT store0 ''user123'' ''tok-A'' ''127.0.0.1'' (Some (Num 3600)))))) = []
   \<and> map_of (db (client (deleteAllByKeyName
                 (snd (storeValidJWT store0 ''user123'' ''tok-A'' ''127.0.0.1'' (Some (Num 3600))))
                 ''blacklisted-jwt'' ''user123'')))
        (''valid-jwt:user123:'' @ hashJWT ''tok-A'') \<noteq> None"
proof -
  have ne: "prefixValid store0 \<noteq> prefixBlacklist store0"
    by (simp add: store0_simps)
  have pl: "plain_prefix (prefixValid store0)" "plain_prefix (prefixBlacklist store0)"
    by (simp_all add: store0_simps plain_prefix_def glob_special_def)
  have e: "fst (keys p (client store0)) = []" for p
    by (simp add: keys_def store0_simps)
  show ?thesis
    using ne pl e
      category_isolation [of store0 "''user123''" "''tok-A''" "''127.0.0.1''" "Some (Num 3600)" "''tok-A''"]
    by (simp add: store0_simps)
qed

subsection \<open>C9: the delimiter inside an identifier\<close>



subsection \<open>C10: the fingerprint is a function of the token\<close>

text \<open>
  Claim C10: computing the fingerprint is deterministic and has no side effect. Run on any
  heap, whatever stores and \<open>Hash\<close> objects it holds, \<open>hashJWT\<close> never throws and
  returns the same digest, the one the operations use; run twice in a row it returns the same
  digest twice; it changes no object that was there, the only trace being the one \<open>Hash\<close>
  object it made. The digest has 64 characters, all lowercase hexadecimal digits, and is the
  SHA-256 digest: for the empty token and for \<open>abc\<close> it is the value of FIPS 180-4.
\<close>

theorem hashJWT_pure:
  "fst (hashJWT_on_heap T h) = Inr (hashJWT T)
   \<and> fst (hashJWT_on_heap T h) = fst (hashJWT_on_heap T h')
   \<and> fst (hashJWT_on_heap T (snd (hashJWT_on_heap T h))) = fst (hashJWT_on_heap T h)
   \<and> length (snd (hashJWT_on_heap T h)) = Suc (length h)
   \<and> (\<forall>a < length h. snd (hashJWT_on_heap T h) ! a = h ! a)
   \<and> length (hashJWT T) = 64
   \<and> set (hashJWT T) \<subseteq> set ''0123456789abcdef''
   \<and> fst (hashJWT_on_heap [] h) =
       Inr ''e3b0c44298fc1c149afbf4c8996fb92427ae41e4649b934ca495991b7852b855''
   \<and> fst (hashJWT_on_heap ''abc'' h) =
       Inr ''ba7816bf8f01cfea414140de5dae2223b00361a396177a9cb410ff61f20015ad''"
  using length_hashJWT [of T] set_hashJWT [of T]
  by (simp add: hashJWT_on_heap_result hashJWT_on_heap_heap nth_append hashJWT_empty hashJWT_abc
        del: list.set)

text \<open>
  Two heaps that hold different stores and objects give the same fingerprint of \<open>tok-A\<close>,
  and the store on the heap is left as it was.
\<close>

theorem hashJWT_pure_witness:
  "fst (hashJWT_on_heap ''tok-A'' [StoreObject store0]) =
     fst (hashJWT_on_heap ''tok-A''
            [StoreObject (snd (storeValidJWT store0 ''user123'' ''tok-A'' ''127.0.0.1'' None)),
             HashObject \<lparr>written = [1, 2, 3], finalized = False\<rparr>])
   \<and> snd (hashJWT_on_heap ''tok-A'' [StoreObject store0]) ! 0 = StoreObject store0
   \<and> length (hashJWT ''tok-A'') = 64"
proof -
  note t = hashJWT_pure [of "''tok-A''" "[StoreObject store0]"
      "[StoreObject (snd (storeValidJWT store0 ''user123'' ''tok-A'' ''127.0.0.1'' None)),
        HashObject \<lparr>written = [1, 2, 3], finalized = False\<rparr>]"]
  have "(0::nat) < length [StoreObject store0]" by simp
  with t have "snd (hashJWT_on_heap ''tok-A'' [StoreObject store0]) ! 0 = [StoreObject store0] ! 0"
    by blast
  then have "snd (hashJWT_on_heap ''tok-A'' [StoreObject store0]) ! 0 = StoreObject store0"
    by simp
  with t show ?thesis by blast
qed

end
